theory Spec2Isabelle
  imports Main
begin

section \<open>Token and currency entities of the SDK (src/entities/token.ts)\<close>

text \<open>
  The entities are immutable objects. A JavaScript object has an identity (its reference),
  which \<open>===\<close> compares, and fields. An object is modelled as a record whose first
  field \<open>ref\<close> is that identity; the other fields are the class's own. Strings are
  \<open>string\<close> (the addresses and messages of this file are ASCII), numbers are
  \<open>int\<close>, an optional parameter is an \<open>option\<close> (\<open>None\<close> is \<open>undefined\<close>).
\<close>

subsection \<open>Errors\<close>

text \<open>
  \<open>invariant(cond, message)\<close> of tiny-invariant throws when \<open>cond\<close> is false. The five
  messages of token.ts are the first five constructors. \<open>InvalidAddress\<close> and
  \<open>InvalidDecimals\<close> are the failures of the address validator and of the Currency
  constructor, which token.ts calls and the specification names.
\<close>

datatype error =
    DECIMALS | SYMBOL | NAME | CHAIN_IDS | ADDRESSES
  | InvalidAddress | InvalidDecimals

definition invariant :: "bool \<Rightarrow> error \<Rightarrow> error + unit" where
  "invariant cond message = (if cond then Inr () else Inl message)"

text \<open>Sequencing of statements that may throw: the first error ends the run.\<close>

definition bindE :: "error + 'a \<Rightarrow> ('a \<Rightarrow> error + 'b) \<Rightarrow> error + 'b" where
  "bindE m f = (case m of Inl e \<Rightarrow> Inl e | Inr x \<Rightarrow> f x)"

text \<open>The specification's names of the error conditions (section 7).\<close>

fun InconsistentTokenMetadata :: "error \<Rightarrow> bool" where
  "InconsistentTokenMetadata DECIMALS = True"
| "InconsistentTokenMetadata SYMBOL = True"
| "InconsistentTokenMetadata NAME = True"
| "InconsistentTokenMetadata _ = False"

definition CrossChainComparison :: error where
  "CrossChainComparison = CHAIN_IDS"

definition IdenticalAddress :: error where
  "IdenticalAddress = ADDRESSES"

subsection \<open>Strings\<close>

definition charCode :: "char \<Rightarrow> nat" where
  "charCode c = of_char c"

text \<open>\<open>String.prototype.toLowerCase\<close> on ASCII: the letters A to Z move to a to z.\<close>

definition toLowerCaseChar :: "char \<Rightarrow> char" where
  "toLowerCaseChar c =
     (if 65 \<le> charCode c \<and> charCode c \<le> 90 then char_of (charCode c + 32) else c)"

definition toUpperCaseChar :: "char \<Rightarrow> char" where
  "toUpperCaseChar c =
     (if 97 \<le> charCode c \<and> charCode c \<le> 122 then char_of (charCode c - 32) else c)"

definition toLowerCase :: "string \<Rightarrow> string" where
  "toLowerCase s = map toLowerCaseChar s"

text \<open>
  The operator \<open><\<close> on two strings: the first position where they differ decides, by
  character code; a proper prefix is smaller.
\<close>

fun stringLess :: "string \<Rightarrow> string \<Rightarrow> bool" where
  "stringLess [] [] = False"
| "stringLess [] (y # ys) = True"
| "stringLess (x # xs) [] = False"
| "stringLess (x # xs) (y # ys) =
     (charCode x < charCode y \<or> (charCode x = charCode y \<and> stringLess xs ys))"

text \<open>
  Truthiness of an optional string, as \<open>if (this.symbol && other.symbol)\<close> tests it:
  \<open>undefined\<close> and the empty string are falsy.
\<close>

fun truthy :: "string option \<Rightarrow> bool" where
  "truthy None = False"
| "truthy (Some s) = (s \<noteq> [])"

subsection \<open>Chain identifiers\<close>

text \<open>
  Modelled from the spec: the enum \<open>ChainId\<close> (src/constants.ts is not among the
  sources) is "an opaque enumerated identifier" (section 3). Its members are the ones
  token.ts names; \<open>GOERLI\<close> stands for the member the source spells with an umlaut.
\<close>

datatype ChainId =
    MAINNET | ROPSTEN | RINKEBY | GOERLI | KOVAN | BSC | CHAPEL | MATIC | MUMBAI
  | EVMOSTEST | EVMOS | CELO | CELOALFAJORES | ZKSYNCTEST | ZKSYNC
  | SCROLLGOERLITEST | SCROLLSEPOLIATEST | SCROLL

subsection \<open>Currency\<close>

text \<open>
  Modelled from the spec: the class \<open>Currency\<close> (src/entities/currency.ts is not among
  the sources). Section 3: \<open>decimals\<close> an integer within a valid range, "e.g., 0-255",
  \<open>symbol\<close> and \<open>name\<close> optional strings. Section 4.2: constructed with these three, it
  "fails with an InvalidDecimals condition if decimals is outside the permitted range",
  and has no further behaviour.
\<close>

record Currency =
  ref :: nat
  decimals :: int
  symbol :: "string option"
  name :: "string option"

definition validDecimals :: "int \<Rightarrow> bool" where
  "validDecimals d = (0 \<le> d \<and> d \<le> 255)"

definition new_Currency ::
  "nat \<Rightarrow> int \<Rightarrow> string option \<Rightarrow> string option \<Rightarrow> error + Currency" where
  "new_Currency r dec symb nam =
     (if validDecimals dec
      then Inr \<lparr>ref = r, decimals = dec, symbol = symb, name = nam\<rparr>
      else Inl InvalidDecimals)"

subsection \<open>Token\<close>

record Token = Currency +
  chainId :: ChainId
  address :: string

text \<open>
  The constructor. \<open>r\<close> is the identity of the object that \<open>new\<close> allocates. The
  utility \<open>validateAndParseAddress\<close> (src/utils.ts is not among the sources) is the
  parameter \<open>vpa\<close>: it returns the parsed address or throws. The call of \<open>super\<close> comes
  first, as in the source.
\<close>

definition new_Token ::
  "(string \<Rightarrow> error + string) \<Rightarrow> nat \<Rightarrow> ChainId \<Rightarrow> string \<Rightarrow> int \<Rightarrow>
   string option \<Rightarrow> string option \<Rightarrow> error + Token" where
  "new_Token vpa r cid addr dec symb nam =
     bindE (new_Currency r dec symb nam) (\<lambda>super.
     bindE (vpa addr) (\<lambda>parsed.
     Inr \<lparr>ref = ref super, decimals = decimals super, symbol = symbol super,
          name = name super, chainId = cid, address = parsed\<rparr>))"

definition equals :: "Token \<Rightarrow> Token \<Rightarrow> error + bool" where
  "equals this other =
     (if ref this = ref other then Inr True
      else
        let equivalent = (chainId this = chainId other \<and> address this = address other) in
        bindE (if equivalent
               then
                 bindE (invariant (decimals this = decimals other) DECIMALS) (\<lambda>_.
                 bindE (if truthy (symbol this) \<and> truthy (symbol other)
                        then invariant (symbol this = symbol other) SYMBOL else Inr ()) (\<lambda>_.
                       (if truthy (name this) \<and> truthy (name other)
                        then invariant (name this = name other) NAME else Inr ())))
               else Inr ()) (\<lambda>_.
        Inr equivalent))"

definition sortsBefore :: "Token \<Rightarrow> Token \<Rightarrow> error + bool" where
  "sortsBefore this other =
     bindE (invariant (chainId this = chainId other) CHAIN_IDS) (\<lambda>_.
     bindE (invariant (address this \<noteq> address other) ADDRESSES) (\<lambda>_.
     Inr (stringLess (toLowerCase (address this)) (toLowerCase (address other)))))"

subsection \<open>currencyEquals\<close>

text \<open>
  A value of static type \<open>Currency\<close> is an instance of \<open>Token\<close> or it is not;
  \<open>instanceof Token\<close> reads the tag.
\<close>

datatype CurrencyValue = CurrencyInstance Currency | TokenInstance Token

fun instanceofToken :: "CurrencyValue \<Rightarrow> bool" where
  "instanceofToken (TokenInstance t) = True"
| "instanceofToken (CurrencyInstance c) = False"

fun refOf :: "CurrencyValue \<Rightarrow> nat" where
  "refOf (TokenInstance t) = ref t"
| "refOf (CurrencyInstance c) = ref c"

fun currencyEquals :: "CurrencyValue \<Rightarrow> CurrencyValue \<Rightarrow> error + bool" where
  "currencyEquals (TokenInstance a) (TokenInstance b) = equals a b"
| "currencyEquals (TokenInstance a) currencyB = Inr False"
| "currencyEquals currencyA (TokenInstance b) = Inr False"
| "currencyEquals currencyA currencyB = Inr (refOf currencyA = refOf currencyB)"

subsection \<open>The address validator\<close>

text \<open>
  Modelled from the spec: \<open>validateAndParseAddress\<close> (src/utils.ts is not among the
  sources). Section 4.1: "given a string, return a normalized canonical representation
  of a chain address, or fail with an InvalidAddress condition if the string is not a
  syntactically valid address for the target chain family (wrong length,
  non-hexadecimal characters, or failed checksum where checksums are enforced)";
  section 1: it "only normalizes casing/format". An address is \<open>0x\<close> and forty
  hexadecimal digits (section 9: a "fixed 20-byte hex format with optional mixed-case
  checksum"). What the specification leaves open is a parameter: which inputs fail an
  enforced checksum, and which letters the canonical form writes in upper case (the
  mixed-case checksum takes them from a hash of the lower-case digits).
\<close>

record AddressRules =
  failsEnforcedChecksum :: "string \<Rightarrow> bool"
  checksumBits :: "string \<Rightarrow> bool list"

definition isHexDigit :: "char \<Rightarrow> bool" where
  "isHexDigit c =
     ((48 \<le> charCode c \<and> charCode c \<le> 57) \<or>
      (65 \<le> charCode c \<and> charCode c \<le> 70) \<or>
      (97 \<le> charCode c \<and> charCode c \<le> 102))"

definition wellFormedAddress :: "string \<Rightarrow> bool" where
  "wellFormedAddress a =
     (length a = 42 \<and> take 2 a = ''0x'' \<and> list_all isHexDigit (drop 2 a))"

fun applyCase :: "bool list \<Rightarrow> string \<Rightarrow> string" where
  "applyCase (b # bs) (c # cs) = (if b then toUpperCaseChar c else c) # applyCase bs cs"
| "applyCase [] cs = cs"
| "applyCase bs [] = []"

definition canonicalAddress :: "AddressRules \<Rightarrow> string \<Rightarrow> string" where
  "canonicalAddress R a =
     (let digits = toLowerCase (drop 2 a)
      in ''0x'' @ applyCase (checksumBits R digits) digits)"

definition validateAndParseAddress :: "AddressRules \<Rightarrow> string \<Rightarrow> error + string" where
  "validateAndParseAddress R a =
     (if wellFormedAddress a \<and> \<not> failsEnforcedChecksum R a
      then Inr (canonicalAddress R a)
      else Inl InvalidAddress)"

text \<open>The rules without a checksum: every well-formed address passes, in lower case.\<close>

definition lowerCaseRules :: AddressRules where
  "lowerCaseRules = \<lparr>failsEnforcedChecksum = (\<lambda>a. False), checksumBits = (\<lambda>digits. [])\<rparr>"

text \<open>
  What the claims about constructed tokens need of the validator, whatever it is: two
  parsed addresses that agree up to letter case are the same string, and so are the
  parsed addresses of two inputs that agree up to letter case.
\<close>

definition canonicalising :: "(string \<Rightarrow> error + string) \<Rightarrow> bool" where
  "canonicalising vpa =
     (\<forall>a b x y. vpa a = Inr x \<and> vpa b = Inr y \<and>
        (toLowerCase x = toLowerCase y \<or> toLowerCase a = toLowerCase b) \<longrightarrow> x = y)"

subsection \<open>The table WETH\<close>

text \<open>
  An object literal evaluates its entries in order; a constructor that throws ends the
  evaluation, and a later entry replaces an earlier one under the same key.
\<close>

fun objectLiteral :: "('k \<times> (error + 'v)) list \<Rightarrow> ('k \<rightharpoonup> 'v) \<Rightarrow> error + ('k \<rightharpoonup> 'v)" where
  "objectLiteral [] obj = Inr obj"
| "objectLiteral ((k, Inl e) # entries) obj = Inl e"
| "objectLiteral ((k, Inr v) # entries) obj = objectLiteral entries (obj(k \<mapsto> v))"

definition WETH_entries :: "(string \<Rightarrow> error + string) \<Rightarrow> (ChainId \<times> (error + Token)) list" where
  "WETH_entries vpa =
    [(MAINNET, new_Token vpa 0 MAINNET ''0xC02aaA39b223FE8D0A0e5C4F27eAD9083C756Cc2'' 18
        (Some ''WETH'') (Some ''Wrapped Ether'')),
     (ROPSTEN, new_Token vpa 1 ROPSTEN ''0xc778417E063141139Fce010982780140Aa0cD5Ab'' 18
        (Some ''WETH'') (Some ''Wrapped Ether'')),
     (RINKEBY, new_Token vpa 2 RINKEBY ''0xc778417E063141139Fce010982780140Aa0cD5Ab'' 18
        (Some ''WETH'') (Some ''Wrapped Ether'')),
     (GOERLI, new_Token vpa 3 GOERLI ''0xB4FBF271143F4FBf7B91A5ded31805e42b2208d6'' 18
        (Some ''WETH'') (Some ''Wrapped Ether'')),
     (KOVAN, new_Token vpa 4 KOVAN ''0xd0A1E359811322d97991E03f863a0C30C2cF029C'' 18
        (Some ''WETH'') (Some ''Wrapped Ether'')),
     (BSC, new_Token vpa 5 BSC ''0xbb4CdB9CBd36B01bD1cBaEBF2De08d9173bc095c'' 18
        (Some ''WBNB'') (Some ''Wrapped BNB'')),
     (CHAPEL, new_Token vpa 6 CHAPEL ''0xaE8E19eFB41e7b96815649A6a60785e1fbA84C1e'' 18
        (Some ''WBNB'') (Some ''Wrapped BNB'')),
     (MATIC, new_Token vpa 7 MATIC ''0x0d500B1d8E8eF31E21C99d1Db9A6444d3ADf1270'' 18
        (Some ''WMATIC'') (Some ''Wrapped Matic'')),
     (MUMBAI, new_Token vpa 8 MUMBAI ''0x9c3C9283D3e44854697Cd22D3Faa240Cfb032889'' 18
        (Some ''WMATIC'') (Some ''Wrapped Matic'')),
     (EVMOSTEST, new_Token vpa 9 EVMOSTEST ''0x42CeDD53a09dCd6cd9482d9a6B75C8fdB2bA5132'' 18
        (Some ''WTEVMOS'') (Some ''Wrapped TEVMOS'')),
     (EVMOS, new_Token vpa 10 EVMOS ''0xd4949664cd82660aae99bedc034a0dea8a0bd517'' 18
        (Some ''WEVMOS'') (Some ''Wrapped EVMOS'')),
     (CELO, new_Token vpa 11 CELO ''0xe9eCec2cfA95D7df0644B6c8BaDD3BC1c3Cf39BA'' 18
        (Some ''WETH'') (Some ''Wrapped Ether'')),
     (CELOALFAJORES, new_Token vpa 12 CELOALFAJORES
        ''0xC8F2E555951a1eDb610b5bEBa530F4130E5d94F9'' 18
        (Some ''WETH'') (Some ''Wrapped Ether'')),
     (ZKSYNCTEST, new_Token vpa 13 ZKSYNCTEST ''0xa1EA0B2354F5A344110af2b6AD68e75545009a03'' 18
        (Some ''WETH'') (Some ''Wrapped Ether'')),
     (ZKSYNC, new_Token vpa 14 ZKSYNC ''0xa1EA0B2354F5A344110af2b6AD68e75545009a03'' 18
        (Some ''WETH'') (Some ''Wrapped Ether'')),
     (SCROLLGOERLITEST, new_Token vpa 15 SCROLLGOERLITEST
        ''0xa1EA0B2354F5A344110af2b6AD68e75545009a03'' 18
        (Some ''WETH'') (Some ''Wrapped Ether'')),
     (SCROLLSEPOLIATEST, new_Token vpa 16 SCROLLSEPOLIATEST
        ''0x5300000000000000000000000000000000000004'' 18
        (Some ''WETH'') (Some ''Wrapped Ether'')),
     (SCROLL, new_Token vpa 17 SCROLL ''0x5300000000000000000000000000000000000004'' 18
        (Some ''WETH'') (Some ''Wrapped Ether''))]"

definition WETH :: "(string \<Rightarrow> error + string) \<Rightarrow> error + (ChainId \<rightharpoonup> Token)" where
  "WETH vpa = objectLiteral (WETH_entries vpa) Map.empty"

subsection \<open>Sample objects\<close>

text \<open>
  Concrete objects on which the properties below are instantiated. The tokens are
  entries of the tables of token.ts, with the address in the form the rules
  \<open>lowerCaseRules\<close> store; \<open>ether\<close> stands for a native currency.
\<close>

definition wethMainnet :: Token where
  "wethMainnet =
     \<lparr>ref = 0, decimals = 18, symbol = Some ''WETH'', name = Some ''Wrapped Ether'',
      chainId = MAINNET, address = ''0xc02aaa39b223fe8d0a0e5c4f27ead9083c756cc2''\<rparr>"

definition wethMainnetAgain :: Token where
  "wethMainnetAgain = wethMainnet\<lparr>ref := 1\<rparr>"

definition wethMainnetSixDecimals :: Token where
  "wethMainnetSixDecimals = wethMainnet\<lparr>ref := 2, decimals := 6\<rparr>"

definition wethMainnetUnnamed :: Token where
  "wethMainnetUnnamed = wethMainnet\<lparr>ref := 3, symbol := Some [], name := Some []\<rparr>"

definition wethRopsten :: Token where
  "wethRopsten =
     \<lparr>ref = 4, decimals = 18, symbol = Some ''WETH'', name = Some ''Wrapped Ether'',
      chainId = ROPSTEN, address = ''0xc778417e063141139fce010982780140aa0cd5ab''\<rparr>"

definition wethRinkebySixDecimals :: Token where
  "wethRinkebySixDecimals = wethRopsten\<lparr>ref := 5, decimals := 6, chainId := RINKEBY\<rparr>"

definition wethScroll :: Token where
  "wethScroll =
     \<lparr>ref = 17, decimals = 18, symbol = Some ''WETH'', name = Some ''Wrapped Ether'',
      chainId = SCROLL, address = ''0x5300000000000000000000000000000000000004''\<rparr>"

definition usdcScroll :: Token where
  "usdcScroll =
     \<lparr>ref = 18, decimals = 6, symbol = Some ''USDC'', name = Some ''USD Coin'',
      chainId = SCROLL, address = ''0x06efdbff2a14a7c8e15944d1f4a48f9f95f663a4''\<rparr>"

definition ether :: Currency where
  "ether = \<lparr>ref = 20, decimals = 18, symbol = Some ''ETH'', name = Some ''Ether''\<rparr>"

definition etherAgain :: Currency where
  "etherAgain = ether\<lparr>ref := 21\<rparr>"

definition WETH_lowerCase :: "ChainId \<rightharpoonup> Token" where
  "WETH_lowerCase =
     (case WETH (validateAndParseAddress lowerCaseRules) of
        Inr table \<Rightarrow> table
      | Inl e \<Rightarrow> Map.empty)"


section \<open>Properties\<close>

subsection \<open>Strings and the validator\<close>

lemma charCode_inj: "charCode x = charCode y \<longleftrightarrow> x = y"
  by (simp add: charCode_def)

lemma charCode_char_of: "n < 256 \<Longrightarrow> charCode (char_of n) = n"
  by (simp add: charCode_def)

lemma toLowerCaseChar_upper:
  "65 \<le> charCode c \<Longrightarrow> charCode c \<le> 90 \<Longrightarrow> toLowerCaseChar c = char_of (charCode c + 32)"
  by (simp add: toLowerCaseChar_def)

lemma toLowerCaseChar_other:
  "charCode c < 65 \<or> 90 < charCode c \<Longrightarrow> toLowerCaseChar c = c"
  by (auto simp add: toLowerCaseChar_def)

lemma toLowerCaseChar_toUpperCaseChar: "toLowerCaseChar (toUpperCaseChar c) = toLowerCaseChar c"
proof (cases "97 \<le> charCode c \<and> charCode c \<le> 122")
  case True
  define u where "u = char_of (charCode c - 32)"
  from True have up: "toUpperCaseChar c = u"
    by (simp add: toUpperCaseChar_def u_def)
  from True have "charCode c - 32 < 256" by arith
  then have code: "charCode u = charCode c - 32"
    unfolding u_def by (rule charCode_char_of)
  with True have range: "65 \<le> charCode u" "charCode u \<le> 90" by arith+
  from code True have plus: "charCode u + 32 = charCode c" by arith
  have "toLowerCaseChar u = char_of (charCode u + 32)"
    using range by (rule toLowerCaseChar_upper)
  also have "\<dots> = c" unfolding plus by (simp add: charCode_def)
  also have "c = toLowerCaseChar c"
    using True by (intro toLowerCaseChar_other [symmetric]) arith
  finally show ?thesis unfolding up .
next
  case False
  then have "toUpperCaseChar c = c" by (auto simp add: toUpperCaseChar_def)
  then show ?thesis by simp
qed

lemma toLowerCaseChar_idem: "toLowerCaseChar (toLowerCaseChar c) = toLowerCaseChar c"
proof (cases "65 \<le> charCode c \<and> charCode c \<le> 90")
  case True
  define l where "l = char_of (charCode c + 32)"
  from True have low: "toLowerCaseChar c = l"
    by (simp add: toLowerCaseChar_upper l_def)
  from True have "charCode c + 32 < 256" by arith
  then have "charCode l = charCode c + 32"
    unfolding l_def by (rule charCode_char_of)
  with True have "charCode l < 65 \<or> 90 < charCode l" by arith
  then have "toLowerCaseChar l = l" by (rule toLowerCaseChar_other)
  then show ?thesis unfolding low .
next
  case False
  then have "toLowerCaseChar c = c" by (intro toLowerCaseChar_other) arith
  then show ?thesis by simp
qed

lemma toLowerCase_idem: "toLowerCase (toLowerCase s) = toLowerCase s"
  by (simp add: toLowerCase_def toLowerCaseChar_idem)

lemma toLowerCase_applyCase: "toLowerCase (applyCase bs cs) = toLowerCase cs"
  by (induction bs cs rule: applyCase.induct)
     (simp_all add: toLowerCase_def toLowerCaseChar_toUpperCaseChar)

lemma toLowerCase_append: "toLowerCase (xs @ ys) = toLowerCase xs @ toLowerCase ys"
  by (simp add: toLowerCase_def)

lemma toLowerCase_drop: "toLowerCase (drop n s) = drop n (toLowerCase s)"
  by (simp add: toLowerCase_def drop_map)

lemma toLowerCase_0x: "toLowerCase ''0x'' = ''0x''"
  by code_simp

lemma toLowerCase_canonicalAddress:
  assumes "wellFormedAddress a"
  shows "toLowerCase (canonicalAddress R a) = toLowerCase a"
proof -
  from assms have "a = ''0x'' @ drop 2 a"
    by (metis append_take_drop_id wellFormedAddress_def)
  then have "toLowerCase a = ''0x'' @ toLowerCase (drop 2 a)"
    by (metis toLowerCase_append toLowerCase_0x)
  moreover have "toLowerCase (canonicalAddress R a) = ''0x'' @ toLowerCase (drop 2 a)"
    unfolding canonicalAddress_def Let_def toLowerCase_append toLowerCase_0x
      toLowerCase_applyCase toLowerCase_idem ..
  ultimately show ?thesis by simp
qed

lemma canonicalAddress_cong:
  "toLowerCase a = toLowerCase b \<Longrightarrow> canonicalAddress R a = canonicalAddress R b"
  by (simp add: canonicalAddress_def toLowerCase_drop)

lemma validateAndParseAddress_Inr:
  "validateAndParseAddress R a = Inr x \<longleftrightarrow>
     wellFormedAddress a \<and> \<not> failsEnforcedChecksum R a \<and> x = canonicalAddress R a"
  by (auto simp add: validateAndParseAddress_def)

lemma canonicalising_validateAndParseAddress: "canonicalising (validateAndParseAddress R)"
  unfolding canonicalising_def validateAndParseAddress_Inr
  by (metis canonicalAddress_cong toLowerCase_canonicalAddress)

lemma stringLess_asym: "stringLess xs ys \<Longrightarrow> \<not> stringLess ys xs"
  by (induction xs ys rule: stringLess.induct) auto

lemma stringLess_total: "xs \<noteq> ys \<Longrightarrow> stringLess xs ys \<or> stringLess ys xs"
  by (induction xs ys rule: stringLess.induct) (auto simp add: charCode_inj)

lemma stringLess_trans: "stringLess xs ys \<Longrightarrow> stringLess ys zs \<Longrightarrow> stringLess xs zs"
proof (induction xs ys arbitrary: zs rule: stringLess.induct)
  case 1
  then show ?case by simp
next
  case (2 y ys)
  then show ?case by (cases zs) simp_all
next
  case (3 x xs)
  then show ?case by simp
next
  case (4 x xs y ys)
  from "4.prems"(2) obtain z zs' where zs: "zs = z # zs'" by (cases zs) auto
  from "4.prems" show ?case unfolding zs by (auto dest: "4.IH")
qed

lemma new_Token_Inr:
  "new_Token vpa r cid addr dec symb nam = Inr t \<longleftrightarrow>
     validDecimals dec \<and>
     (\<exists>parsed. vpa addr = Inr parsed \<and>
        t = \<lparr>ref = r, decimals = dec, symbol = symb, name = nam, chainId = cid, address = parsed\<rparr>)"
  by (auto simp add: new_Token_def new_Currency_def bindE_def split: sum.splits)

subsection \<open>The methods, branch by branch\<close>

lemma equals_unfold:
  "equals t u =
     (if ref t = ref u then Inr True
      else if \<not> (chainId t = chainId u \<and> address t = address u) then Inr False
      else if decimals t \<noteq> decimals u then Inl DECIMALS
      else if truthy (symbol t) \<and> truthy (symbol u) \<and> symbol t \<noteq> symbol u then Inl SYMBOL
      else if truthy (name t) \<and> truthy (name u) \<and> name t \<noteq> name u then Inl NAME
      else Inr True)"
  by (simp add: equals_def invariant_def bindE_def Let_def)

lemma sortsBefore_unfold:
  "sortsBefore a b =
     (if chainId a \<noteq> chainId b then Inl CHAIN_IDS
      else if address a = address b then Inl ADDRESSES
      else Inr (stringLess (toLowerCase (address a)) (toLowerCase (address b))))"
  by (simp add: sortsBefore_def invariant_def bindE_def)

lemma objectLiteral_invariant:
  assumes "objectLiteral entries obj = Inr tbl"
    and "\<And>k v. obj k = Some v \<Longrightarrow> P k v"
    and "\<And>k v. (k, Inr v) \<in> set entries \<Longrightarrow> P k v"
    and "tbl k = Some v"
  shows "P k v"
  using assms
proof (induction entries obj rule: objectLiteral.induct)
  case (1 obj)
  then show ?case by simp
next
  case (2 k' e entries obj)
  then show ?case by simp
next
  case (3 k' v' entries obj)
  show ?case
  proof (rule "3.IH")
    show "objectLiteral entries (obj(k' \<mapsto> v')) = Inr tbl" using "3.prems"(1) by simp
    show "P ka va" if "(obj(k' \<mapsto> v')) ka = Some va" for ka va
      using that "3.prems"(2,3) by (cases "ka = k'") auto
    show "P ka va" if "(ka, Inr va) \<in> set entries" for ka va
      using that "3.prems"(3) by simp
    show "tbl k = Some v" by (rule "3.prems"(4))
  qed
qed

lemma new_Token_fields:
  "new_Token vpa r cid addr dec symb nam = Inr t \<Longrightarrow> chainId t = cid \<and> decimals t = dec"
  by (auto simp add: new_Token_Inr)

lemma canonicalising_parsed:
  "canonicalising vpa \<Longrightarrow> vpa a = Inr x \<Longrightarrow> vpa b = Inr y \<Longrightarrow>
   toLowerCase x = toLowerCase y \<Longrightarrow> x = y"
  unfolding canonicalising_def by blast

lemma canonicalising_input:
  "canonicalising vpa \<Longrightarrow> vpa a = Inr x \<Longrightarrow> vpa b = Inr y \<Longrightarrow>
   toLowerCase a = toLowerCase b \<Longrightarrow> x = y"
  unfolding canonicalising_def by blast

text \<open>Facts that evaluate the definitions on the sample objects.\<close>

lemmas sample_defs = wethMainnet_def wethMainnetAgain_def wethMainnetSixDecimals_def
  wethMainnetUnnamed_def wethRopsten_def wethRinkebySixDecimals_def wethScroll_def usdcScroll_def
  ether_def etherAgain_def

lemmas eval_defs = toLowerCase_def toLowerCaseChar_def toUpperCaseChar_def charCode_def
  char_of_eq_iff wellFormedAddress_def isHexDigit_def validateAndParseAddress_def
  canonicalAddress_def lowerCaseRules_def new_Token_def new_Currency_def validDecimals_def
  bindE_def

section \<open>The claims\<close>

text \<open>
  C1, as stated: for two constructed Tokens, \<open>t.equals(u)\<close> returns true if and only
  if the chainIds are equal and the addresses are equal up to letter case. Two tokens
  built from the same chainId and address and different decimals have the same
  identity, and \<open>equals\<close> raises DECIMALS on them instead of returning true.
\<close>

theorem equals_constructed_counterexample:
  "new_Token (validateAndParseAddress lowerCaseRules) 0 MAINNET
     ''0xC02aaA39b223FE8D0A0e5C4F27eAD9083C756Cc2'' 18 (Some ''WETH'') (Some ''Wrapped Ether'')
     = Inr wethMainnet \<and>
   new_Token (validateAndParseAddress lowerCaseRules) 2 MAINNET
     ''0xC02aaA39b223FE8D0A0e5C4F27eAD9083C756Cc2'' 6 (Some ''WETH'') (Some ''Wrapped Ether'')
     = Inr wethMainnetSixDecimals \<and>
   chainId wethMainnet = chainId wethMainnetSixDecimals \<and>
   toLowerCase (address wethMainnet) = toLowerCase (address wethMainnetSixDecimals) \<and>
   equals wethMainnet wethMainnetSixDecimals = Inl DECIMALS \<and>
   equals wethMainnet wethMainnetSixDecimals \<noteq> Inr True"
  by (simp add: eval_defs sample_defs equals_unfold)

text \<open>
  C1, amended: for two Tokens \<open>t\<close> and \<open>u\<close> that the constructor built (objects of one
  heap), \<open>t.equals(u)\<close> returns true if and only if the chainIds are equal, the
  addresses are equal up to letter case, and the metadata agrees: the decimals are
  equal, the symbols are equal when both are provided, and so are the names. It
  returns false if and only if the chainIds differ or the addresses differ up to letter
  case. In particular two Tokens built from the same chainId, from addresses that
  differ only in letter case, and from the same decimals, symbol and name are equal.
  The address validator is any function that returns one canonical form per address.
\<close>

theorem equals_of_constructed_tokens:
  assumes "canonicalising vpa"
    and "new_Token vpa r1 c1 a1 d1 s1 n1 = Inr t"
    and "new_Token vpa r2 c2 a2 d2 s2 n2 = Inr u"
    and "ref t = ref u \<Longrightarrow> t = u"
  shows "(equals t u = Inr True \<longleftrightarrow>
            chainId t = chainId u \<and> toLowerCase (address t) = toLowerCase (address u) \<and>
            decimals t = decimals u \<and>
            (truthy (symbol t) \<and> truthy (symbol u) \<longrightarrow> symbol t = symbol u) \<and>
            (truthy (name t) \<and> truthy (name u) \<longrightarrow> name t = name u)) \<and>
         (equals t u = Inr False \<longleftrightarrow>
            \<not> (chainId t = chainId u \<and> toLowerCase (address t) = toLowerCase (address u))) \<and>
         (c1 = c2 \<and> toLowerCase a1 = toLowerCase a2 \<and> d1 = d2 \<and> s1 = s2 \<and> n1 = n2 \<longrightarrow>
            equals t u = Inr True)"
proof -
  from assms(2) have pt: "vpa a1 = Inr (address t)"
    and ft: "chainId t = c1" "decimals t = d1" "symbol t = s1" "name t = n1"
    by (auto simp add: new_Token_Inr)
  from assms(3) have pu: "vpa a2 = Inr (address u)"
    and fu: "chainId u = c2" "decimals u = d2" "symbol u = s2" "name u = n2"
    by (auto simp add: new_Token_Inr)
  have canon: "toLowerCase (address t) = toLowerCase (address u) \<longleftrightarrow> address t = address u"
    using canonicalising_parsed [OF assms(1) pt pu] by auto
  have same: "toLowerCase a1 = toLowerCase a2 \<Longrightarrow> address t = address u"
    by (rule canonicalising_input [OF assms(1) pt pu])
  show ?thesis
  proof (cases "ref t = ref u")
    case True
    with assms(4) have "t = u" by simp
    then show ?thesis by (simp add: equals_unfold)
  next
    case False
    then show ?thesis
      using same by (auto simp add: equals_unfold canon ft fu)
  qed
qed

theorem equals_of_constructed_tokens_witness:
  "canonicalising (validateAndParseAddress lowerCaseRules) \<and>
   new_Token (validateAndParseAddress lowerCaseRules) 0 MAINNET
     ''0xC02aaA39b223FE8D0A0e5C4F27eAD9083C756Cc2'' 18 (Some ''WETH'') (Some ''Wrapped Ether'')
     = Inr wethMainnet \<and>
   new_Token (validateAndParseAddress lowerCaseRules) 1 MAINNET
     ''0xc02aaa39b223fe8d0a0e5c4f27ead9083c756cc2'' 18 (Some ''WETH'') (Some ''Wrapped Ether'')
     = Inr wethMainnetAgain \<and>
   ref wethMainnet \<noteq> ref wethMainnetAgain \<and>
   equals wethMainnet wethMainnetAgain = Inr True"
proof -
  have c: "canonicalising (validateAndParseAddress lowerCaseRules)"
    by (rule canonicalising_validateAndParseAddress)
  have a: "new_Token (validateAndParseAddress lowerCaseRules) 0 MAINNET
     ''0xC02aaA39b223FE8D0A0e5C4F27eAD9083C756Cc2'' 18 (Some ''WETH'') (Some ''Wrapped Ether'')
     = Inr wethMainnet"
    by (simp add: eval_defs sample_defs)
  have b: "new_Token (validateAndParseAddress lowerCaseRules) 1 MAINNET
     ''0xc02aaa39b223fe8d0a0e5c4f27ead9083c756cc2'' 18 (Some ''WETH'') (Some ''Wrapped Ether'')
     = Inr wethMainnetAgain"
    by (simp add: eval_defs sample_defs)
  have r: "ref wethMainnet \<noteq> ref wethMainnetAgain" by (simp add: sample_defs)
  then have h: "ref wethMainnet = ref wethMainnetAgain \<Longrightarrow> wethMainnet = wethMainnetAgain"
    by simp
  have l: "toLowerCase ''0xC02aaA39b223FE8D0A0e5C4F27eAD9083C756Cc2'' =
      toLowerCase ''0xc02aaa39b223fe8d0a0e5c4f27ead9083c756cc2''"
    by (simp add: eval_defs)
  show ?thesis
    using equals_of_constructed_tokens [OF c a b h] c a b r l by simp
qed

text \<open>
  C2. For two distinct Token objects \<open>t\<close> and \<open>u\<close>, \<open>t.equals(u)\<close> raises the
  InconsistentTokenMetadata condition exactly when they have the same identity (same
  chainId and address) and their decimals differ, or both provide a symbol and the
  symbols differ, or both provide a name and the names differ. Nothing else is ever
  raised, and when the identities differ the result is false. A symbol or name is
  provided when it is a non-empty string, which is what the source's test for
  truthiness accepts.
\<close>

theorem equals_raises_iff:
  assumes "ref t \<noteq> ref u"
  shows "((\<exists>e. equals t u = Inl e \<and> InconsistentTokenMetadata e) \<longleftrightarrow>
            (chainId t = chainId u \<and> address t = address u) \<and>
            (decimals t \<noteq> decimals u \<or>
             (truthy (symbol t) \<and> truthy (symbol u) \<and> symbol t \<noteq> symbol u) \<or>
             (truthy (name t) \<and> truthy (name u) \<and> name t \<noteq> name u))) \<and>
         (\<forall>e. equals t u = Inl e \<longrightarrow> InconsistentTokenMetadata e) \<and>
         (\<not> (chainId t = chainId u \<and> address t = address u) \<longrightarrow> equals t u = Inr False)"
  using assms by (auto simp add: equals_unfold split: if_splits)

theorem equals_raises_iff_witness:
  "ref wethMainnet \<noteq> ref wethMainnetSixDecimals \<and>
   (\<exists>e. equals wethMainnet wethMainnetSixDecimals = Inl e \<and> InconsistentTokenMetadata e) \<and>
   ref wethMainnet \<noteq> ref wethRopsten \<and>
   equals wethMainnet wethRopsten = Inr False"
proof -
  have d1: "ref wethMainnet \<noteq> ref wethMainnetSixDecimals" by (simp add: sample_defs)
  have d2: "ref wethMainnet \<noteq> ref wethRopsten" by (simp add: sample_defs)
  show ?thesis
    using equals_raises_iff [OF d1] equals_raises_iff [OF d2] d1 d2
    by (simp add: sample_defs)
qed

text \<open>
  C3. For two Tokens \<open>A\<close> and \<open>B\<close> that the constructor built, on the same chain and
  with different addresses, exactly one of \<open>A.sortsBefore(B)\<close> and \<open>B.sortsBefore(A)\<close>
  returns true and the other returns false; the result is the lexicographic comparison
  of the two addresses in lower case. The address validator is any function that
  returns one canonical form per address.
\<close>

theorem sortsBefore_total:
  assumes "canonicalising vpa"
    and "new_Token vpa ra ca aa da sa na = Inr A"
    and "new_Token vpa rb cb ab db sb nb = Inr B"
    and "chainId A = chainId B"
    and "address A \<noteq> address B"
  shows "((sortsBefore A B = Inr True \<and> sortsBefore B A = Inr False) \<or>
          (sortsBefore A B = Inr False \<and> sortsBefore B A = Inr True)) \<and>
         sortsBefore A B =
           Inr (stringLess (toLowerCase (address A)) (toLowerCase (address B)))"
proof -
  from assms(2) have pa: "vpa aa = Inr (address A)" by (auto simp add: new_Token_Inr)
  from assms(3) have pb: "vpa ab = Inr (address B)" by (auto simp add: new_Token_Inr)
  from assms(1) pa pb assms(5)
  have "toLowerCase (address A) \<noteq> toLowerCase (address B)"
    unfolding canonicalising_def by blast
  then have "stringLess (toLowerCase (address A)) (toLowerCase (address B)) \<or>
             stringLess (toLowerCase (address B)) (toLowerCase (address A))"
    by (rule stringLess_total)
  moreover have "\<not> (stringLess (toLowerCase (address A)) (toLowerCase (address B)) \<and>
             stringLess (toLowerCase (address B)) (toLowerCase (address A)))"
    using stringLess_asym by blast
  ultimately show ?thesis
    using assms(4,5) by (auto simp add: sortsBefore_unfold)
qed

theorem sortsBefore_total_witness:
  "canonicalising (validateAndParseAddress lowerCaseRules) \<and>
   new_Token (validateAndParseAddress lowerCaseRules) 17 SCROLL
     ''0x5300000000000000000000000000000000000004'' 18 (Some ''WETH'') (Some ''Wrapped Ether'')
     = Inr wethScroll \<and>
   new_Token (validateAndParseAddress lowerCaseRules) 18 SCROLL
     ''0x06eFdBFf2a14a7c8E15944D1F4A48F9F95F663A4'' 6 (Some ''USDC'') (Some ''USD Coin'')
     = Inr usdcScroll \<and>
   chainId wethScroll = chainId usdcScroll \<and>
   address wethScroll \<noteq> address usdcScroll \<and>
   sortsBefore usdcScroll wethScroll = Inr True \<and>
   sortsBefore wethScroll usdcScroll = Inr False"
proof -
  have c: "canonicalising (validateAndParseAddress lowerCaseRules)"
    by (rule canonicalising_validateAndParseAddress)
  have a: "new_Token (validateAndParseAddress lowerCaseRules) 17 SCROLL
     ''0x5300000000000000000000000000000000000004'' 18 (Some ''WETH'') (Some ''Wrapped Ether'')
     = Inr wethScroll"
    by (simp add: eval_defs wethScroll_def)
  have b: "new_Token (validateAndParseAddress lowerCaseRules) 18 SCROLL
     ''0x06eFdBFf2a14a7c8E15944D1F4A48F9F95F663A4'' 6 (Some ''USDC'') (Some ''USD Coin'')
     = Inr usdcScroll"
    by (simp add: eval_defs usdcScroll_def)
  have h1: "chainId wethScroll = chainId usdcScroll" by (simp add: sample_defs)
  have h2: "address wethScroll \<noteq> address usdcScroll" by (simp add: sample_defs)
  have v: "sortsBefore usdcScroll wethScroll = Inr True"
    by (simp add: sortsBefore_unfold eval_defs usdcScroll_def wethScroll_def)
  show ?thesis
    using sortsBefore_total [OF c a b h1 h2] c a b h1 h2 v by simp
qed

text \<open>
  The order is transitive as well: with C3, \<open>sortsBefore\<close> is a strict total order on
  the constructed tokens of one chain.
\<close>

lemma sortsBefore_transitive:
  assumes "sortsBefore A B = Inr True" and "sortsBefore B C = Inr True"
  shows "sortsBefore A C = Inr True"
proof -
  from assms have chains: "chainId A = chainId B" "chainId B = chainId C"
    and less: "stringLess (toLowerCase (address A)) (toLowerCase (address B))"
      "stringLess (toLowerCase (address B)) (toLowerCase (address C))"
    by (auto simp add: sortsBefore_unfold split: if_splits)
  from less have l: "stringLess (toLowerCase (address A)) (toLowerCase (address C))"
    by (rule stringLess_trans)
  have "address A \<noteq> address C"
  proof
    assume "address A = address C"
    with l less(1) stringLess_asym show False by (metis stringLess_trans)
  qed
  with chains l show ?thesis by (simp add: sortsBefore_unfold)
qed

text \<open>
  C4. \<open>A.sortsBefore(B)\<close> fails with CrossChainComparison whenever the chainIds differ,
  also when the addresses are equal, and with IdenticalAddress whenever the chainIds are
  equal and the addresses are equal. In particular \<open>A.sortsBefore(A)\<close> fails with
  IdenticalAddress.
\<close>

theorem sortsBefore_misuse:
  "(chainId a \<noteq> chainId b \<longrightarrow> sortsBefore a b = Inl CrossChainComparison) \<and>
   (chainId a = chainId b \<and> address a = address b \<longrightarrow> sortsBefore a b = Inl IdenticalAddress) \<and>
   sortsBefore a a = Inl IdenticalAddress"
  by (simp add: sortsBefore_unfold CrossChainComparison_def IdenticalAddress_def)

theorem sortsBefore_misuse_witness:
  "chainId wethRopsten \<noteq> chainId wethRinkebySixDecimals \<and>
   address wethRopsten = address wethRinkebySixDecimals \<and>
   sortsBefore wethRopsten wethRinkebySixDecimals = Inl CrossChainComparison \<and>
   chainId wethMainnet = chainId wethMainnetAgain \<and>
   address wethMainnet = address wethMainnetAgain \<and>
   sortsBefore wethMainnet wethMainnetAgain = Inl IdenticalAddress"
  using sortsBefore_misuse [of wethRopsten wethRinkebySixDecimals]
    sortsBefore_misuse [of wethMainnet wethMainnetAgain]
  by (simp add: sample_defs)

text \<open>
  C5. When exactly one of two Currency values is a Token, \<open>currencyEquals\<close> returns
  false, whatever their fields; when both are Tokens it returns (or raises) exactly what
  \<open>Token.equals\<close> does.
\<close>

theorem currencyEquals_dispatch:
  "(instanceofToken a \<noteq> instanceofToken b \<longrightarrow> currencyEquals a b = Inr False) \<and>
   currencyEquals (TokenInstance t) (TokenInstance u) = equals t u"
  by (cases a; cases b) simp_all

theorem currencyEquals_dispatch_witness:
  "instanceofToken (CurrencyInstance ether) \<noteq> instanceofToken (TokenInstance wethMainnet) \<and>
   currencyEquals (CurrencyInstance ether) (TokenInstance wethMainnet) = Inr False \<and>
   currencyEquals (TokenInstance wethMainnet) (CurrencyInstance ether) = Inr False"
  using currencyEquals_dispatch [of "CurrencyInstance ether" "TokenInstance wethMainnet"]
    currencyEquals_dispatch [of "TokenInstance wethMainnet" "CurrencyInstance ether"]
  by simp

text \<open>
  C6, as stated: two non-Token Currency values with equal decimals, symbol and name
  are equal for \<open>currencyEquals\<close>. The source compares the two references
  (\<open>currencyA === currencyB\<close>), so two distinct instances with equal fields are not
  equal.
\<close>

theorem currencyEquals_native_counterexample:
  "\<not> instanceofToken (CurrencyInstance ether) \<and>
   \<not> instanceofToken (CurrencyInstance etherAgain) \<and>
   decimals ether = decimals etherAgain \<and>
   symbol ether = symbol etherAgain \<and>
   name ether = name etherAgain \<and>
   currencyEquals (CurrencyInstance ether) (CurrencyInstance etherAgain) = Inr False"
  by (simp add: sample_defs)

text \<open>
  C6, amended: for two non-Token Currency values \<open>currencyEquals\<close> never raises and
  returns true exactly when the two are the same instance.
\<close>

theorem currencyEquals_native_is_reference_equality:
  assumes "\<not> instanceofToken a" and "\<not> instanceofToken b"
  shows "currencyEquals a b = Inr (refOf a = refOf b)"
  using assms by (cases a; cases b) simp_all

theorem currencyEquals_native_witness:
  "\<not> instanceofToken (CurrencyInstance ether) \<and>
   \<not> instanceofToken (CurrencyInstance etherAgain) \<and>
   currencyEquals (CurrencyInstance ether) (CurrencyInstance ether) = Inr True \<and>
   currencyEquals (CurrencyInstance etherAgain) (CurrencyInstance ether) = Inr False"
  using currencyEquals_native_is_reference_equality
      [of "CurrencyInstance ether" "CurrencyInstance ether"]
    currencyEquals_native_is_reference_equality
      [of "CurrencyInstance etherAgain" "CurrencyInstance ether"]
  by (simp add: sample_defs)

text \<open>
  C7. Two Tokens with equal addresses and different chainIds are not equal, and
  \<open>equals\<close> does not raise on them, whatever their decimals, symbols and names. The two
  are objects of one heap: if they had the same reference they would be one object.
\<close>

theorem equals_cross_chain:
  assumes "ref t = ref u \<Longrightarrow> t = u"
    and "chainId t \<noteq> chainId u"
    and "address t = address u"
  shows "equals t u = Inr False"
proof -
  from assms(1,2) have "ref t \<noteq> ref u" by auto
  with assms(2) show ?thesis by (simp add: equals_unfold)
qed

theorem equals_cross_chain_witness:
  "chainId wethRopsten \<noteq> chainId wethRinkebySixDecimals \<and>
   address wethRopsten = address wethRinkebySixDecimals \<and>
   decimals wethRopsten \<noteq> decimals wethRinkebySixDecimals \<and>
   equals wethRopsten wethRinkebySixDecimals = Inr False"
proof -
  have h1: "ref wethRopsten = ref wethRinkebySixDecimals \<Longrightarrow>
      wethRopsten = wethRinkebySixDecimals"
    by (simp add: sample_defs)
  have h2: "chainId wethRopsten \<noteq> chainId wethRinkebySixDecimals" by (simp add: sample_defs)
  have h3: "address wethRopsten = address wethRinkebySixDecimals" by (simp add: sample_defs)
  show ?thesis using equals_cross_chain [OF h1 h2 h3] h2 h3 by (simp add: sample_defs)
qed

text \<open>
  C8. The claim is about the address argument; the other arguments are valid, that
  is, the decimals are in the permitted range (the Currency constructor runs first and
  validates them). Then the construction fails with InvalidAddress for every malformed
  address string (wrong length, no \<open>0x\<close>, or a character that is not a hexadecimal
  digit) and for every address that fails an enforced checksum; for every other, that
  is every syntactically valid, address it succeeds, the other fields are the
  arguments, and the stored address is the normalized canonical form of the input:
  equal to the input up to letter case, and the same for all inputs that agree up to
  letter case.
\<close>

theorem new_Token_validation:
  assumes "validDecimals dec"
  shows "(\<not> wellFormedAddress a \<or> failsEnforcedChecksum R a \<longrightarrow>
            new_Token (validateAndParseAddress R) r cid a dec symb nam = Inl InvalidAddress) \<and>
         (wellFormedAddress a \<and> \<not> failsEnforcedChecksum R a \<longrightarrow>
            new_Token (validateAndParseAddress R) r cid a dec symb nam =
              Inr \<lparr>ref = r, decimals = dec, symbol = symb, name = nam, chainId = cid,
                   address = canonicalAddress R a\<rparr> \<and>
            toLowerCase (canonicalAddress R a) = toLowerCase a \<and>
            (\<forall>b. toLowerCase b = toLowerCase a \<longrightarrow> canonicalAddress R b = canonicalAddress R a))"
  using assms
  by (auto simp add: new_Token_def new_Currency_def bindE_def validateAndParseAddress_def
      toLowerCase_canonicalAddress intro: canonicalAddress_cong)

theorem new_Token_validation_witness:
  "validDecimals 18 \<and>
   \<not> wellFormedAddress ''0x0000000000000000000000000000000000000g'' \<and>
   new_Token (validateAndParseAddress lowerCaseRules) 0 MAINNET
     ''0x0000000000000000000000000000000000000g'' 18 (Some ''WETH'') (Some ''Wrapped Ether'')
     = Inl InvalidAddress \<and>
   wellFormedAddress ''0xC02aaA39b223FE8D0A0e5C4F27eAD9083C756Cc2'' \<and>
   \<not> failsEnforcedChecksum lowerCaseRules ''0xC02aaA39b223FE8D0A0e5C4F27eAD9083C756Cc2'' \<and>
   canonicalAddress lowerCaseRules ''0xC02aaA39b223FE8D0A0e5C4F27eAD9083C756Cc2'' =
     ''0xc02aaa39b223fe8d0a0e5c4f27ead9083c756cc2'' \<and>
   new_Token (validateAndParseAddress lowerCaseRules) 0 MAINNET
     ''0xC02aaA39b223FE8D0A0e5C4F27eAD9083C756Cc2'' 18 (Some ''WETH'') (Some ''Wrapped Ether'')
     = Inr wethMainnet"
proof -
  have d: "validDecimals 18" by (simp add: validDecimals_def)
  have g: "\<not> wellFormedAddress ''0x0000000000000000000000000000000000000g''"
    by (simp add: eval_defs)
  have w: "wellFormedAddress ''0xC02aaA39b223FE8D0A0e5C4F27eAD9083C756Cc2''"
    by (simp add: eval_defs)
  have f: "\<not> failsEnforcedChecksum lowerCaseRules ''0xC02aaA39b223FE8D0A0e5C4F27eAD9083C756Cc2''"
    by (simp add: lowerCaseRules_def)
  have k: "canonicalAddress lowerCaseRules ''0xC02aaA39b223FE8D0A0e5C4F27eAD9083C756Cc2'' =
     ''0xc02aaa39b223fe8d0a0e5c4f27ead9083c756cc2''"
    by (simp add: eval_defs)
  show ?thesis
    using new_Token_validation [OF d, of "''0x0000000000000000000000000000000000000g''"
        lowerCaseRules 0 MAINNET "Some ''WETH''" "Some ''Wrapped Ether''"]
      new_Token_validation [OF d, of "''0xC02aaA39b223FE8D0A0e5C4F27eAD9083C756Cc2''"
        lowerCaseRules 0 MAINNET "Some ''WETH''" "Some ''Wrapped Ether''"]
      d g w f k
    by (simp add: wethMainnet_def)
qed

text \<open>
  The decimals come first: \<open>super(decimals, symbol, name)\<close> is the constructor's
  first statement, so decimals outside the permitted range end the construction with
  InvalidDecimals before the address is looked at, whatever the validator is.
\<close>

lemma new_Token_decimals_first:
  "\<not> validDecimals dec \<Longrightarrow> new_Token vpa r cid a dec symb nam = Inl InvalidDecimals"
  by (simp add: new_Token_def new_Currency_def bindE_def)

text \<open>
  C9. For two Tokens with the same chainId and address: if the symbol of either is the
  empty string, \<open>equals\<close> makes no symbol check. It cannot raise SYMBOL, and its outcome
  is the one it has when neither token provides a symbol, even when the other token's
  symbol is a different non-empty string. The same holds for the name and NAME.
\<close>

theorem equals_empty_string_not_provided:
  assumes "chainId t = chainId u" and "address t = address u"
  shows "(symbol t = Some [] \<or> symbol u = Some [] \<longrightarrow>
            equals t u \<noteq> Inl SYMBOL \<and>
            equals t u = equals (t\<lparr>symbol := None\<rparr>) (u\<lparr>symbol := None\<rparr>)) \<and>
         (name t = Some [] \<or> name u = Some [] \<longrightarrow>
            equals t u \<noteq> Inl NAME \<and>
            equals t u = equals (t\<lparr>name := None\<rparr>) (u\<lparr>name := None\<rparr>))"
  using assms by (auto simp add: equals_unfold)

theorem equals_empty_string_witness:
  "chainId wethMainnet = chainId wethMainnetUnnamed \<and>
   address wethMainnet = address wethMainnetUnnamed \<and>
   symbol wethMainnetUnnamed = Some [] \<and> name wethMainnetUnnamed = Some [] \<and>
   symbol wethMainnet = Some ''WETH'' \<and> name wethMainnet = Some ''Wrapped Ether'' \<and>
   equals wethMainnet wethMainnetUnnamed \<noteq> Inl SYMBOL \<and>
   equals wethMainnet wethMainnetUnnamed \<noteq> Inl NAME \<and>
   equals wethMainnet wethMainnetUnnamed = Inr True"
proof -
  have h1: "chainId wethMainnet = chainId wethMainnetUnnamed" by (simp add: sample_defs)
  have h2: "address wethMainnet = address wethMainnetUnnamed" by (simp add: sample_defs)
  have e: "equals (wethMainnet\<lparr>symbol := None\<rparr>) (wethMainnetUnnamed\<lparr>symbol := None\<rparr>) = Inr True"
    by (simp add: sample_defs equals_unfold)
  show ?thesis
    using equals_empty_string_not_provided [OF h1 h2] e by (simp add: sample_defs)
qed

text \<open>
  C10. Whenever the table \<open>WETH\<close> is built (no constructor threw), the Token stored
  under a chainId key has that chainId and 18 decimals.
\<close>

theorem WETH_entries_match_their_key:
  assumes "WETH vpa = Inr tbl" and "tbl k = Some t"
  shows "chainId t = k \<and> decimals t = 18"
proof (rule objectLiteral_invariant [where P = "\<lambda>k t. chainId t = k \<and> decimals t = 18"])
  show "objectLiteral (WETH_entries vpa) Map.empty = Inr tbl"
    using assms(1) by (simp add: WETH_def)
  show "chainId v = k \<and> decimals v = 18" if "Map.empty k = Some v" for k :: ChainId and v :: Token
    using that by simp
  show "chainId v = k \<and> decimals v = 18" if "(k, Inr v) \<in> set (WETH_entries vpa)" for k v
    using that unfolding WETH_entries_def by (auto dest: new_Token_fields [OF sym])
  show "tbl k = Some t" by (rule assms(2))
qed

theorem WETH_entries_witness:
  "WETH (validateAndParseAddress lowerCaseRules) = Inr WETH_lowerCase \<and>
   WETH_lowerCase SCROLL = Some wethScroll \<and>
   chainId wethScroll = SCROLL \<and> decimals wethScroll = 18"
proof -
  have "\<not> isl (WETH (validateAndParseAddress lowerCaseRules))"
    by (simp add: WETH_def WETH_entries_def eval_defs)
  then have w: "WETH (validateAndParseAddress lowerCaseRules) = Inr WETH_lowerCase"
    by (cases "WETH (validateAndParseAddress lowerCaseRules)") (simp_all add: WETH_lowerCase_def)
  have l: "WETH_lowerCase SCROLL = Some wethScroll"
    by (simp add: WETH_lowerCase_def WETH_def WETH_entries_def eval_defs wethScroll_def)
  show ?thesis using WETH_entries_match_their_key [OF w l] w l by simp
qed

end
